theory Spec2Isabelle
  imports Main
begin

section \<open>Python values used by the prompts\<close>

text \<open>
  A Python \<open>str\<close> is a sequence of Unicode code points and \<open>len\<close> counts code points,
  so a string is modelled as the list of its code points. \<open>lit\<close> embeds an ASCII literal.
\<close>

type_synonym pystr = "nat list"

definition lit :: "string \<Rightarrow> pystr" where
  "lit cs = map of_char cs"

text \<open>\<open>str(n)\<close> for a non-negative integer: its decimal digits.\<close>

fun py_str_nat :: "nat \<Rightarrow> pystr" where
  "py_str_nat n = (if n < 10 then [48 + n] else py_str_nat (n div 10) @ [48 + n mod 10])"

declare py_str_nat.simps [simp del]

text \<open>\<open>sep.join(xs)\<close>.\<close>

fun py_join :: "pystr \<Rightarrow> pystr list \<Rightarrow> pystr" where
  "py_join sep [] = []"
| "py_join sep [x] = x"
| "py_join sep (x # y # ys) = x @ sep @ py_join sep (y # ys)"

text \<open>Truthiness of an optional string: \<open>None\<close> and the empty string are false.\<close>

fun truthy :: "pystr option \<Rightarrow> bool" where
  "truthy None = False"
| "truthy (Some s) = (s \<noteq> [])"


text \<open>\<open>list.index(x)\<close>: the first position of \<open>x\<close>, or no position (ValueError).\<close>

fun py_index :: "'a list \<Rightarrow> 'a \<Rightarrow> nat option" where
  "py_index [] x = None"
| "py_index (y # ys) x = (if y = x then Some 0 else map_option Suc (py_index ys x))"

text \<open>
  The exceptions that can leave the prompt code. \<open>NoChoice\<close> and \<open>CannotAddReactions\<close> are
  the repository's own (exceptions.py); \<open>HTTPException\<close>, \<open>Forbidden\<close> and \<open>NotFound\<close> are
  the transport library's, the last two being subclasses of the first; \<open>OtherError\<close>
  stands for any exception outside these classes.
\<close>

datatype exn =
    NoChoice
  | CannotAddReactions
  | NotImplementedError
  | AttributeError
  | TypeError
  | ValueError
  | IndexError
  | TimeoutError
  | HTTPException
  | Forbidden
  | NotFound
  | OtherError

text \<open>\<open>isinstance(e, (discord.HTTPException, discord.Forbidden))\<close>.\<close>

fun is_http :: "exn \<Rightarrow> bool" where
  "is_http HTTPException = True"
| "is_http Forbidden = True"
| "is_http NotFound = True"
| "is_http _ = False"

datatype pyval = PyNone | PyStr pystr

section \<open>The collaborators: users, reactions, the bot, the context, the display object\<close>

record user =
  user_id :: nat
  user_name :: pystr
  avatar_url :: pystr

record reaction =
  emoji :: pystr
  reaction_message_id :: nat

text \<open>\<open>str(reaction)\<close> is \<open>str(reaction.emoji)\<close> in the transport library.\<close>

definition reaction_str :: "reaction \<Rightarrow> pystr" where
  "reaction_str r = emoji r"

record bot_client =
  bot_user_id :: nat
  color :: "nat \<Rightarrow> nat"

record command_context =
  ctx_bot :: bot_client
  ctx_author :: user
  can_add_reactions :: bool

record embed_obj =
  embed_color :: nat
  embed_author :: "(pystr \<times> pystr) option"
  embed_title :: "pystr option"
  embed_image :: "pystr option"
  embed_footer :: "pystr option"
  embed_description :: "pystr option"
  embed_fields :: "(pystr \<times> pystr option) list"

section \<open>The prompt object\<close>

text \<open>
  \<open>reactions\<close> is \<open>None\<close> in the base class, a dict from marker to value in \<open>Link\<close>
  (an association list in insertion order) and a list of markers in \<open>Choose\<close>.
\<close>

datatype reactions = RNone | RDict "(pystr \<times> pystr option) list" | RList "pystr list"

datatype kind = Base | Link | Update | Choose

text \<open>
  The slots of \<open>BasePaginator\<close> and \<open>Update\<close>. The timeout is not a field of the model:
  the signals that arrive before it elapses are given to the wait as a list.
\<close>

record BasePaginator =
  kind :: kind
  entries :: "pystr list option"
  title :: "pystr option"
  footer :: "pystr option"
  image_url :: "pystr option"
  reactions :: reactions
  embed :: "embed_obj option"
  description :: "pystr list"
  ctx :: "command_context option"
  bot_ref :: "bot_client option"
  author :: "user option"
  message :: "nat option"
  platform :: "pystr option"
  username :: "pystr option"


definition BasePaginator_init ::
  "pystr list option \<Rightarrow> pystr option \<Rightarrow> pystr option \<Rightarrow> pystr option \<Rightarrow> BasePaginator" where
  "BasePaginator_init es t img ft =
     \<lparr>kind = Base, entries = es, title = t, footer = ft, image_url = img,
      reactions = RNone, embed = None, description = [], ctx = None, bot_ref = None,
      author = None, message = None, platform = None, username = None\<rparr>"

text \<open>The cancel marker is the single code point U+274C.\<close>

definition link_reactions :: "(pystr \<times> pystr option) list" where
  "link_reactions =
     [(lit ''<:battlenet:679469162724196387>'', Some (lit ''pc'')),
      (lit ''<:psn:679468542541693128>'', Some (lit ''psn'')),
      (lit ''<:xbl:679469487623503930>'', Some (lit ''xbl'')),
      (lit ''<:nsw:752653766377078817>'', Some (lit ''nintendo-switch'')),
      ([0x274C], None)]"

text \<open>\<open>tr\<close> is the translation function \<open>_\<close> of utils.i18n.\<close>

definition Link_init :: "(pystr \<Rightarrow> pystr) \<Rightarrow> BasePaginator" where
  "Link_init tr =
     (BasePaginator_init None (Some (tr (lit ''Platform''))) None
        (Some (tr (lit ''React with the platform you play on...''))))
     \<lparr>kind := Link, reactions := RDict link_reactions\<rparr>"

definition Update_init :: "(pystr \<Rightarrow> pystr) \<Rightarrow> pystr \<Rightarrow> pystr \<Rightarrow> BasePaginator" where
  "Update_init tr pf un =
     (Link_init tr)\<lparr>kind := Update, platform := Some pf, username := Some un\<rparr>"

definition Choose_init ::
  "pystr list option \<Rightarrow> pystr option \<Rightarrow> pystr option \<Rightarrow> pystr option \<Rightarrow> BasePaginator" where
  "Choose_init es t img ft =
     (BasePaginator_init es t img ft)\<lparr>kind := Choose, reactions := RList []\<rparr>"

section \<open>init_embed\<close>

definition init_embed :: "BasePaginator \<Rightarrow> exn + (embed_obj \<times> BasePaginator)" where
  "init_embed p =
     (case bot_ref p of None \<Rightarrow> Inl AttributeError | Some b \<Rightarrow>
      (case author p of None \<Rightarrow> Inl AttributeError | Some a \<Rightarrow>
        (let e0 = \<lparr>embed_color = color b (user_id a),
                   embed_author = Some (user_name a, avatar_url a),
                   embed_title = None, embed_image = None, embed_footer = None,
                   embed_description = None, embed_fields = []\<rparr>;
             (e1, p1) =
               (if truthy (title p) then
                  (if length (the (title p)) \<le> 256
                   then (e0\<lparr>embed_title := title p\<rparr>, p)
                   else (e0, p\<lparr>description := description p @ [the (title p)]\<rparr>))
                else (e0, p));
             e2 = (if truthy (image_url p) then e1\<lparr>embed_image := image_url p\<rparr> else e1);
             e3 = (if truthy (footer p) then e2\<lparr>embed_footer := footer p\<rparr> else e2)
         in Inr (e3, p1))))"

section \<open>The wait filter\<close>

text \<open>\<open>x in reactions\<close>: key membership for a dict, element membership for a list.\<close>

fun py_in :: "pystr \<Rightarrow> reactions \<Rightarrow> exn + bool" where
  "py_in x RNone = Inl TypeError"
| "py_in x (RDict d) = Inr (x \<in> set (map fst d))"
| "py_in x (RList l) = Inr (x \<in> set l)"

text \<open>The markers of a marker set, in iteration order.\<close>

fun markers :: "reactions \<Rightarrow> pystr list" where
  "markers RNone = []"
| "markers (RDict d) = map fst d"
| "markers (RList l) = l"

text \<open>The closure \<open>check(r, u)\<close> of \<open>BasePaginator.paginator\<close>, over the session \<open>p\<close>.\<close>

definition check :: "BasePaginator \<Rightarrow> reaction \<Rightarrow> user \<Rightarrow> exn + bool" where
  "check p r u =
     (case author p of None \<Rightarrow> Inl AttributeError | Some a \<Rightarrow>
      if user_id u \<noteq> user_id a then Inr False else
      (case bot_ref p of None \<Rightarrow> Inl AttributeError | Some b \<Rightarrow>
       if user_id u = bot_user_id b then Inr False else
       (case message p of None \<Rightarrow> Inl AttributeError | Some m \<Rightarrow>
        if reaction_message_id r \<noteq> m then Inr False else
        (case py_in (emoji r) (reactions p) of
           Inl e \<Rightarrow> Inl e
         | Inr b \<Rightarrow> if \<not> b then Inr False else Inr True))))"

text \<open>
  The filter as \<open>check\<close> would read with its second test (the signaling user is the bot
  itself) taken out.
\<close>

definition check_without_self :: "BasePaginator \<Rightarrow> reaction \<Rightarrow> user \<Rightarrow> exn + bool" where
  "check_without_self p r u =
     (case author p of None \<Rightarrow> Inl AttributeError | Some a \<Rightarrow>
      if user_id u \<noteq> user_id a then Inr False else
      (case message p of None \<Rightarrow> Inl AttributeError | Some m \<Rightarrow>
       if reaction_message_id r \<noteq> m then Inr False else
       (case py_in (emoji r) (reactions p) of
          Inl e \<Rightarrow> Inl e
        | Inr b \<Rightarrow> if \<not> b then Inr False else Inr True)))"

section \<open>The transport\<close>

text \<open>
  The state of the messaging transport as the prompt code can change it: the messages
  sent (with the display object given to \<open>send\<close>), the messages that exist, the marker
  registration tasks created on the event loop, the \<open>add_reaction\<close> calls made, the markers
  attached, and the \<open>delete\<close> calls made.
\<close>

record world =
  sent :: "(nat \<times> embed_obj option) list"
  live :: "nat list"
  tasks :: "nat list"
  reaction_calls :: "(nat \<times> pystr) list"
  attached :: "(nat \<times> pystr) list"
  deletes :: "nat list"

text \<open>
  What the outside does during one run: what \<open>send\<close> answers (an exception or the handle of
  the new message), the reaction signals dispatched before the timeout elapses, whether
  somebody else deletes the message while the prompt waits, whether the transport fails
  the prompt's own \<open>delete\<close>, and whether it fails the n-th \<open>add_reaction\<close> call.
\<close>

record transport =
  send_result :: "exn + nat"
  events :: "(reaction \<times> user) list"
  externally_deleted :: bool
  delete_fault :: "exn option"
  add_fault :: "nat \<Rightarrow> exn option"

text \<open>
  \<open>bot.wait_for("reaction_add", check=check, timeout=...)\<close>: the first signal the filter
  accepts; an exception of the filter is raised by the wait; TimeoutError when the signals
  of the window are used up.
\<close>

fun wait_for ::
  "(reaction \<Rightarrow> user \<Rightarrow> exn + bool) \<Rightarrow> (reaction \<times> user) list \<Rightarrow> exn + (reaction \<times> user)" where
  "wait_for chk [] = Inl TimeoutError"
| "wait_for chk ((r, u) # evs) =
     (case chk r u of
        Inl e \<Rightarrow> Inl e
      | Inr b \<Rightarrow> if b then Inr (r, u) else wait_for chk evs)"


section \<open>result\<close>

definition BasePaginator_result :: "BasePaginator \<Rightarrow> reaction \<Rightarrow> exn + pyval" where
  "BasePaginator_result p r = Inl NotImplementedError"

text \<open>\<open>self.reactions.get(str(reaction.emoji))\<close>; only a dict has \<open>get\<close>.\<close>

definition Link_result :: "BasePaginator \<Rightarrow> reaction \<Rightarrow> exn + pyval" where
  "Link_result p r =
     (case reactions p of
        RDict d \<Rightarrow>
          Inr (case map_of d (emoji r) of
                 None \<Rightarrow> PyNone
               | Some None \<Rightarrow> PyNone
               | Some (Some v) \<Rightarrow> PyStr v)
      | _ \<Rightarrow> Inl AttributeError)"

text \<open>\<open>self.entries[self.reactions.index(str(reaction))]\<close>; only a list has \<open>index\<close>.\<close>

definition Choose_result :: "BasePaginator \<Rightarrow> reaction \<Rightarrow> exn + pyval" where
  "Choose_result p r =
     (case reactions p of
        RList l \<Rightarrow>
          (case py_index l (reaction_str r) of
             None \<Rightarrow> Inl ValueError
           | Some i \<Rightarrow>
               (case entries p of
                  None \<Rightarrow> Inl TypeError
                | Some es \<Rightarrow> if i < length es then Inr (PyStr (es ! i)) else Inl IndexError))
      | _ \<Rightarrow> Inl AttributeError)"

text \<open>Method dispatch on the class of the prompt; \<open>Update\<close> inherits \<open>result\<close> from \<open>Link\<close>.\<close>

definition result :: "BasePaginator \<Rightarrow> reaction \<Rightarrow> exn + pyval" where
  "result p r =
     (case kind p of
        Base \<Rightarrow> BasePaginator_result p r
      | Link \<Rightarrow> Link_result p r
      | Update \<Rightarrow> Link_result p r
      | Choose \<Rightarrow> Choose_result p r)"

section \<open>add_reactions and cleanup\<close>

text \<open>
  The loop of \<open>add_reactions\<close> from its \<open>i\<close>-th call on: an exception of the transport's
  classes ends the loop and the method returns; any other exception propagates.
\<close>

fun add_reactions_loop ::
  "transport \<Rightarrow> nat \<Rightarrow> BasePaginator \<Rightarrow> pystr list \<Rightarrow> world \<Rightarrow> (exn + unit) \<times> world" where
  "add_reactions_loop t i p [] w = (Inr (), w)"
| "add_reactions_loop t i p (r # rs) w =
     (case message p of
        None \<Rightarrow> (Inl AttributeError, w)
      | Some m \<Rightarrow>
          (let w1 = w\<lparr>reaction_calls := reaction_calls w @ [(m, r)]\<rparr> in
           case add_fault t i of
             None \<Rightarrow> add_reactions_loop t (Suc i) p rs (w1\<lparr>attached := attached w1 @ [(m, r)]\<rparr>)
           | Some e \<Rightarrow> if is_http e then (Inr (), w1) else (Inl e, w1)))"

definition add_reactions :: "transport \<Rightarrow> BasePaginator \<Rightarrow> world \<Rightarrow> (exn + unit) \<times> world" where
  "add_reactions t p w =
     (case reactions p of
        RNone \<Rightarrow> (Inl TypeError, w)
      | rs \<Rightarrow> add_reactions_loop t 0 p (markers rs) w)"


section \<open>paginator and start\<close>




text \<open>\<open>self.embed.description = "\n".join(self.description)\<close>.\<close>

definition set_embed_description :: "BasePaginator \<Rightarrow> exn option \<times> BasePaginator" where
  "set_embed_description p =
     (case embed p of
        None \<Rightarrow> (Some AttributeError, p)
      | Some e \<Rightarrow>
          (None, p\<lparr>embed := Some (e\<lparr>embed_description := Some (py_join [10] (description p))\<rparr>)\<rparr>))"






text \<open>The numeric marker of index \<open>i\<close>: its decimal digits and the keycap code point U+20E3.\<close>

definition keycap :: "nat \<Rightarrow> pystr" where
  "keycap i = py_str_nat i @ [0x20E3]"

text \<open>
  The loop of \<open>Choose.start\<close> over \<open>enumerate(self.entries, start=index)\<close>; only a list
  has \<open>append\<close>.
\<close>

fun Choose_loop :: "nat \<Rightarrow> pystr list \<Rightarrow> BasePaginator \<Rightarrow> exn option \<times> BasePaginator" where
  "Choose_loop index [] p = (None, p)"
| "Choose_loop index (entry # rest) p =
     (case reactions p of
        RList l \<Rightarrow>
          Choose_loop (Suc index) rest
            (p\<lparr>reactions := RList (l @ [keycap index]),
               description := description p @ [py_str_nat index @ lit ''. '' @ entry]\<rparr>)
      | _ \<Rightarrow> (Some AttributeError, p))"

definition Choose_prepare :: "command_context \<Rightarrow> BasePaginator \<Rightarrow> exn option \<times> BasePaginator" where
  "Choose_prepare c p =
     (let p1 = p\<lparr>ctx := Some c, bot_ref := Some (ctx_bot c), author := Some (ctx_author c)\<rparr> in
      case init_embed p1 of
        Inl e \<Rightarrow> (Some e, p1)
      | Inr (em, p2) \<Rightarrow>
          (let p3 = p2\<lparr>embed := Some em\<rparr> in
           case entries p3 of
             None \<Rightarrow> (Some TypeError, p3)
           | Some es \<Rightarrow>
               (case Choose_loop 1 es p3 of
                  (Some e, p4) \<Rightarrow> (Some e, p4)
                | (None, p4) \<Rightarrow> set_embed_description p4)))"



text \<open>
  What \<open>Choose.start\<close> writes for entries numbered from \<open>i\<close>: the body lines
  \<open>"i. entry"\<close> and the markers.
\<close>

fun numbered :: "nat \<Rightarrow> pystr list \<Rightarrow> pystr list" where
  "numbered i [] = []"
| "numbered i (entry # rest) = (py_str_nat i @ lit ''. '' @ entry) # numbered (Suc i) rest"

definition keycaps :: "nat \<Rightarrow> nat \<Rightarrow> pystr list" where
  "keycaps i n = map keycap [i..<i + n]"

text \<open>
  \<open>q\<close> is a session of the prompt \<open>p\<close> in the context \<open>c\<close>: what the first statements
  of every \<open>start\<close> establish.
\<close>

definition session_of :: "command_context \<Rightarrow> BasePaginator \<Rightarrow> BasePaginator \<Rightarrow> bool" where
  "session_of c p q \<longleftrightarrow>
     ctx q = Some c \<and> bot_ref q = Some (ctx_bot c) \<and> author q = Some (ctx_author c) \<and>
     kind q = kind p \<and> entries q = entries p \<and> message q = message p \<and> embed q \<noteq> None"




section \<open>A concrete setting\<close>

text \<open>
  One invoking user, the bot, a context with and one without the permission to attach
  markers, an empty transport state, and runs of the outside world, used to evaluate the
  theorems below on concrete inputs.
\<close>

definition example_user :: user where
  "example_user = \<lparr>user_id = 7, user_name = lit ''ana'', avatar_url = lit ''a.png''\<rparr>"

definition other_user :: user where
  "other_user = \<lparr>user_id = 8, user_name = lit ''bo'', avatar_url = lit ''b.png''\<rparr>"

definition example_bot :: bot_client where
  "example_bot = \<lparr>bot_user_id = 1, color = (\<lambda>i. 0)\<rparr>"

definition example_ctx :: command_context where
  "example_ctx = \<lparr>ctx_bot = example_bot, ctx_author = example_user, can_add_reactions = True\<rparr>"

definition denied_ctx :: command_context where
  "denied_ctx = \<lparr>ctx_bot = example_bot, ctx_author = example_user, can_add_reactions = False\<rparr>"

definition empty_world :: world where
  "empty_world =
     \<lparr>sent = [], live = [], tasks = [], reaction_calls = [], attached = [], deletes = []\<rparr>"

text \<open>A run in which \<open>send\<close> answers message 100 and the given signals arrive.\<close>

definition run_with :: "(reaction \<times> user) list \<Rightarrow> transport" where
  "run_with evs =
     \<lparr>send_result = Inr 100, events = evs, externally_deleted = False,
      delete_fault = None, add_fault = (\<lambda>i. None)\<rparr>"

text \<open>A link prompt in the middle of its session, waiting on message \<open>m\<close>.\<close>

definition waiting_link :: "nat \<Rightarrow> BasePaginator" where
  "waiting_link m =
     (Link_init id)\<lparr>ctx := Some example_ctx, bot_ref := Some example_bot,
                    author := Some example_user, message := Some m\<rparr>"

definition cancel_on :: "nat \<Rightarrow> reaction" where
  "cancel_on m = \<lparr>emoji = [0x274C], reaction_message_id = m\<rparr>"

definition overlong :: pystr where
  "overlong = replicate 257 65"

text \<open>A choice prompt whose title has 257 characters, as \<open>start\<close> hands it to \<open>init_embed\<close>.\<close>

definition overlong_prompt :: BasePaginator where
  "overlong_prompt =
     (Choose_init (Some [lit ''A'']) (Some overlong) None None)
     \<lparr>ctx := Some example_ctx, bot_ref := Some example_bot, author := Some example_user\<rparr>"

text \<open>A run in which the transport refuses the third \<open>add_reaction\<close> call.\<close>

definition third_refused :: transport where
  "third_refused = (run_with [])\<lparr>add_fault := (\<lambda>i. if i = 2 then Some Forbidden else None)\<rparr>"

text \<open>
  A session of a class that inherits \<open>result\<close> from the base class, and a run in which
  the invoking user selects the cancel marker and the transport refuses the \<open>delete\<close>.
\<close>

definition unresolving_session :: BasePaginator where
  "unresolving_session =
     (Link_init id)\<lparr>kind := Base, ctx := Some example_ctx, bot_ref := Some example_bot,
                    author := Some example_user\<rparr>"

definition cancel_then_refused :: transport where
  "cancel_then_refused =
     (run_with [(cancel_on 100, example_user)])\<lparr>delete_fault := Some Forbidden\<rparr>"

text \<open>Signals that the filter of a session on message 100 rejects, one for each test.\<close>

definition rejected_signals :: "(reaction \<times> user) list" where
  "rejected_signals =
     [(cancel_on 100, other_user),
      (cancel_on 200, example_user),
      (\<lparr>emoji = lit ''x'', reaction_message_id = 100\<rparr>, example_user)]"

section \<open>Properties of the wait filter\<close>

lemma py_in_True_iff: "(py_in x rs = Inr True) = (x \<in> set (markers rs))"
  by (cases rs) simp_all

lemmas example_defs =
  example_user_def other_user_def example_bot_def example_ctx_def denied_ctx_def
  empty_world_def run_with_def waiting_link_def cancel_on_def
  overlong_def overlong_prompt_def third_refused_def unresolving_session_def
  cancel_then_refused_def rejected_signals_def
  Link_init_def BasePaginator_init_def link_reactions_def lit_def

text \<open>
  Claim C1. In a session (invoking user, bot and rendered message set), the filter accepts
  a signal exactly when the signaling user is the invoking user, is not the bot itself,
  the signal's message is the rendered message, and the signal's marker is in the marker
  set. So of two sessions with different rendered messages, the filter of one never
  accepts a signal addressed to the message of the other.
\<close>

theorem check_accepts_iff_and_isolation:
  "(author p = Some a \<and> bot_ref p = Some b \<and> message p = Some m \<longrightarrow>
      (check p r u = Inr True) =
        (user_id u = user_id a \<and> user_id u \<noteq> bot_user_id b \<and>
         reaction_message_id r = m \<and> emoji r \<in> set (markers (reactions p)))) \<and>
   (message p1 = Some m1 \<and> message p2 = Some m2 \<and> m1 \<noteq> m2 \<and>
    reaction_message_id r' = m1 \<longrightarrow> check p2 r' u' \<noteq> Inr True)"
proof (intro conjI impI)
  assume h: "author p = Some a \<and> bot_ref p = Some b \<and> message p = Some m"
  show "(check p r u = Inr True) =
        (user_id u = user_id a \<and> user_id u \<noteq> bot_user_id b \<and>
         reaction_message_id r = m \<and> emoji r \<in> set (markers (reactions p)))"
    using h py_in_True_iff [of "emoji r" "reactions p"]
    by (auto simp: check_def split: sum.splits)
next
  assume h: "message p1 = Some m1 \<and> message p2 = Some m2 \<and> m1 \<noteq> m2 \<and>
    reaction_message_id r' = m1"
  show "check p2 r' u' \<noteq> Inr True"
    using h by (auto simp: check_def split: option.splits sum.splits if_splits)
qed

text \<open>
  Claim C1 at a concrete input: the invoking user's cancel signal on message 100 is accepted
  by the session waiting on message 100 and not by the one waiting on message 200.
\<close>

theorem check_accepts_iff_and_isolation_witness:
  "check (waiting_link 100) (cancel_on 100) example_user = Inr True \<and>
   check (waiting_link 200) (cancel_on 100) example_user \<noteq> Inr True"
  using check_accepts_iff_and_isolation
    [where p = "waiting_link 100" and a = example_user and b = example_bot and m = 100
       and r = "cancel_on 100" and u = example_user
       and ?p1.0 = "waiting_link 100" and ?m1.0 = 100
       and ?p2.0 = "waiting_link 200" and ?m2.0 = 200
       and r' = "cancel_on 100" and u' = example_user]
  by (simp add: example_defs)

text \<open>
  Claim C10. When the invoking user is not the bot itself, the filter without its test
  against the bot's own identity answers as the filter does, on every signal.
\<close>

theorem check_self_test_redundant:
  assumes "author p = Some a" and "bot_ref p = Some b" and "user_id a \<noteq> bot_user_id b"
  shows "check_without_self p r u = check p r u"
  using assms by (auto simp: check_def check_without_self_def split: option.splits sum.splits)

text \<open>
  Claim C10 at a concrete input, on a signal that the filter accepts.
\<close>

theorem check_self_test_redundant_witness:
  "user_id example_user \<noteq> bot_user_id example_bot \<and>
   check_without_self (waiting_link 100) (cancel_on 100) example_user =
     check (waiting_link 100) (cancel_on 100) example_user \<and>
   check (waiting_link 100) (cancel_on 100) example_user = Inr True"
proof -
  have a: "author (waiting_link 100) = Some example_user"
    and b: "bot_ref (waiting_link 100) = Some example_bot"
    and n: "user_id example_user \<noteq> bot_user_id example_bot"
    by (simp_all add: example_defs)
  have "check (waiting_link 100) (cancel_on 100) example_user = Inr True"
    by (simp add: check_def example_defs)
  with n check_self_test_redundant [OF a b n, of "cancel_on 100" example_user]
  show ?thesis by simp
qed

section \<open>Resolution of the link markers\<close>

text \<open>
  Claim C7. A link prompt and an update prompt, whose marker set is the one their
  constructor sets, resolve the cancel marker to None and each of the four platform
  markers to that platform's identifier.
\<close>

theorem link_result_values:
  "(kind p = Link \<or> kind p = Update) \<and> reactions p = RDict link_reactions \<longrightarrow>
     result p (r\<lparr>emoji := [0x274C]\<rparr>) = Inr PyNone \<and>
     result p (r\<lparr>emoji := lit ''<:battlenet:679469162724196387>''\<rparr>) = Inr (PyStr (lit ''pc'')) \<and>
     result p (r\<lparr>emoji := lit ''<:psn:679468542541693128>''\<rparr>) = Inr (PyStr (lit ''psn'')) \<and>
     result p (r\<lparr>emoji := lit ''<:xbl:679469487623503930>''\<rparr>) = Inr (PyStr (lit ''xbl'')) \<and>
     result p (r\<lparr>emoji := lit ''<:nsw:752653766377078817>''\<rparr>) =
       Inr (PyStr (lit ''nintendo-switch''))"
  by (auto simp: result_def Link_result_def link_reactions_def lit_def)

text \<open>
  Claim C7 at the prompts as constructed.
\<close>

theorem link_result_values_witness:
  "result (Link_init id) (cancel_on 100) = Inr PyNone \<and>
   result (Update_init id (lit ''pc'') (lit ''ana#1'')) (cancel_on 100) = Inr PyNone \<and>
   result (Link_init id) ((cancel_on 100)\<lparr>emoji := lit ''<:psn:679468542541693128>''\<rparr>) =
     Inr (PyStr (lit ''psn''))"
  using link_result_values [of "Link_init id" "cancel_on 100"]
    link_result_values [of "Update_init id (lit ''pc'') (lit ''ana#1'')" "cancel_on 100"]
  by (simp add: Link_init_def Update_init_def BasePaginator_init_def cancel_on_def)

section \<open>Properties of init_embed\<close>

lemma init_embed_Inr:
  "init_embed p = Inr (e, p') \<Longrightarrow>
     \<exists>b a. bot_ref p = Some b \<and> author p = Some a \<and>
       e = \<lparr>embed_color = color b (user_id a),
            embed_author = Some (user_name a, avatar_url a),
            embed_title = (if truthy (title p) \<and> length (the (title p)) \<le> 256 then title p else None),
            embed_image = (if truthy (image_url p) then image_url p else None),
            embed_footer = (if truthy (footer p) then footer p else None),
            embed_description = None, embed_fields = []\<rparr> \<and>
       p' = (if truthy (title p) \<and> 256 < length (the (title p))
             then p\<lparr>description := description p @ [the (title p)]\<rparr> else p)"
  by (auto simp: init_embed_def Let_def split: option.splits if_splits)

lemma init_embed_session:
  "bot_ref p = Some b \<Longrightarrow> author p = Some a \<Longrightarrow> \<exists>e p'. init_embed p = Inr (e, p')"
  by (simp add: init_embed_def Let_def split: prod.splits)

lemma init_embed_ok:
  assumes "bot_ref p = Some b" and "author p = Some a"
  shows "\<exists>e ls. init_embed p = Inr (e, p\<lparr>description := ls\<rparr>) \<and>
           (if truthy (title p) \<and> 256 < length (the (title p))
            then ls = description p @ [the (title p)] \<and> embed_title e = None
            else ls = description p) \<and>
           embed_description e = None"
proof -
  obtain e p' where ie: "init_embed p = Inr (e, p')"
    using init_embed_session [OF assms] by blast
  have same: "p = p\<lparr>description := description p\<rparr>" by simp
  show ?thesis
  proof (cases "truthy (title p) \<and> 256 < length (the (title p))")
    case True
    with init_embed_Inr [OF ie] ie show ?thesis by auto
  next
    case False
    with init_embed_Inr [OF ie] have "p' = p" and "embed_description e = None" by auto
    with ie same False show ?thesis by (metis (full_types))
  qed
qed

section \<open>The statements of start before the permission test\<close>




lemma Choose_loop_eq:
  "reactions p = RList l \<Longrightarrow>
   Choose_loop i es p =
     (None, p\<lparr>reactions := RList (l @ keycaps i (length es)),
              description := description p @ numbered i es\<rparr>)"
proof (induction es arbitrary: i p l)
  case Nil
  then show ?case by (simp add: keycaps_def)
next
  case (Cons e es)
  have "[i..<i + length (e # es)] = i # [Suc i..<Suc i + length es]"
    by (simp add: upt_rec)
  then show ?case using Cons.prems
    by (simp add: Cons.IH [where l = "l @ [keycap i]"] keycaps_def)
qed

lemma Choose_prepare_session:
  assumes "reactions p = RList l" and "entries p = Some es"
  shows "\<exists>q e ls. Choose_prepare c p = (None, q) \<and> session_of c p q \<and>
           reactions q = RList (l @ keycaps 1 (length es)) \<and>
           init_embed (p\<lparr>ctx := Some c, bot_ref := Some (ctx_bot c), author := Some (ctx_author c)\<rparr>)
             = Inr (e, p\<lparr>ctx := Some c, bot_ref := Some (ctx_bot c),
                         author := Some (ctx_author c), description := ls\<rparr>) \<and>
           description q = ls @ numbered 1 es \<and>
           embed q = Some (e\<lparr>embed_description := Some (py_join [10] (ls @ numbered 1 es))\<rparr>)"
proof -
  let ?p1 = "p\<lparr>ctx := Some c, bot_ref := Some (ctx_bot c), author := Some (ctx_author c)\<rparr>"
  have "bot_ref ?p1 = Some (ctx_bot c)" and "author ?p1 = Some (ctx_author c)"
    by simp_all
  then obtain e ls0 where ie: "init_embed ?p1 = Inr (e, ?p1\<lparr>description := ls0\<rparr>)"
    using init_embed_ok by blast
  have "reactions (?p1\<lparr>description := ls0, embed := Some e\<rparr>) = RList l"
    using assms by simp
  note loop = Choose_loop_eq [OF this, of 1 es]
  show ?thesis
    using assms ie loop
    by (simp add: Choose_prepare_def set_embed_description_def session_of_def)
qed




lemma overlong_init_embed:
  "init_embed overlong_prompt =
     Inr (\<lparr>embed_color = 0, embed_author = Some (lit ''ana'', lit ''a.png''),
           embed_title = None, embed_image = None, embed_footer = None,
           embed_description = None, embed_fields = []\<rparr>,
          overlong_prompt\<lparr>description := [overlong]\<rparr>)"
  by (simp add: init_embed_def overlong_prompt_def overlong_def Choose_init_def
      BasePaginator_init_def example_user_def example_bot_def example_ctx_def Let_def)


text \<open>
  Claim C6 as stated fails: on a prompt whose title has 257 characters and whose body-line
  list is empty, \<open>init_embed\<close> leaves the title in the body-line list of the session.
\<close>

theorem init_embed_side_effect_counterexample:
  "map_sum id (description \<circ> snd) (init_embed overlong_prompt) = Inr [overlong] \<and>
   description overlong_prompt = []"
  by (simp add: overlong_init_embed) (simp add: overlong_prompt_def Choose_init_def BasePaginator_init_def)

text \<open>
  Claim C6, amended. \<open>init_embed\<close> changes nothing in the session but the body-line list,
  and that only when the title is longer than 256 characters: then the title is appended
  to the list. With no title or a title of at most 256 characters the session is unchanged.
\<close>

theorem init_embed_state_change:
  "init_embed p = Inr (e, p') \<Longrightarrow>
     (case title p of
        None \<Rightarrow> p' = p
      | Some s \<Rightarrow> if 256 < length s then p' = p\<lparr>description := description p @ [s]\<rparr> else p' = p)"
  using init_embed_Inr [of p e p'] by (auto split: option.splits)

text \<open>
  Claim C6, amended, at a link prompt titled Platform: the session is unchanged.
\<close>

theorem init_embed_state_change_witness:
  "init_embed (waiting_link 100) =
     Inr (\<lparr>embed_color = 0, embed_author = Some (lit ''ana'', lit ''a.png''),
           embed_title = Some (lit ''Platform''), embed_image = None,
           embed_footer = Some (lit ''React with the platform you play on...''),
           embed_description = None, embed_fields = []\<rparr>,
          waiting_link 100)"
proof -
  have ie: "init_embed (waiting_link 100) =
     Inr (\<lparr>embed_color = 0, embed_author = Some (lit ''ana'', lit ''a.png''),
           embed_title = Some (lit ''Platform''), embed_image = None,
           embed_footer = Some (lit ''React with the platform you play on...''),
           embed_description = None, embed_fields = []\<rparr>,
          snd (projr (init_embed (waiting_link 100))))"
    by (simp add: init_embed_def example_defs Let_def)
  have "title (waiting_link 100) = Some (lit ''Platform'')"
    by (simp add: waiting_link_def Link_init_def BasePaginator_init_def)
  moreover have "length (lit ''Platform'') = 8" by (simp add: lit_def)
  ultimately have "snd (projr (init_embed (waiting_link 100))) = waiting_link 100"
    using init_embed_state_change [OF ie] by simp
  with ie show ?thesis by simp
qed

section \<open>Starting without the permission\<close>





section \<open>Marker registration\<close>

lemma add_reactions_loop_all:
  "message p = Some m \<Longrightarrow> \<forall>j<length rs. add_fault t (i + j) = None \<Longrightarrow>
   add_reactions_loop t i p rs w =
     (Inr (), w\<lparr>reaction_calls := reaction_calls w @ map (Pair m) rs,
                attached := attached w @ map (Pair m) rs\<rparr>)"
proof (induction rs arbitrary: i w)
  case Nil
  then show ?case by simp
next
  case (Cons r rs)
  from Cons.prems(2) have here: "add_fault t i = None" by force
  from Cons.prems(2) have rest: "\<forall>j<length rs. add_fault t (Suc i + j) = None" by force
  show ?case
    using Cons.prems(1) here Cons.IH [OF Cons.prems(1) rest] by simp
qed

lemma add_reactions_loop_stop:
  "message p = Some m \<Longrightarrow> k < length rs \<Longrightarrow> \<forall>j<k. add_fault t (i + j) = None \<Longrightarrow>
   add_fault t (i + k) = Some e \<Longrightarrow>
   add_reactions_loop t i p rs w =
     (if is_http e then Inr () else Inl e,
      w\<lparr>reaction_calls := reaction_calls w @ map (Pair m) (take (Suc k) rs),
        attached := attached w @ map (Pair m) (take k rs)\<rparr>)"
proof (induction rs arbitrary: i k w)
  case Nil
  then show ?case by simp
next
  case (Cons r rs)
  show ?case
  proof (cases k)
    case 0
    with Cons.prems show ?thesis by simp
  next
    case (Suc k')
    from Cons.prems(3) Suc have here: "add_fault t i = None" by force
    from Cons.prems(3) Suc have rest: "\<forall>j<k'. add_fault t (Suc i + j) = None" by force
    from Cons.prems(2) Suc have len: "k' < length rs" by simp
    from Cons.prems(4) Suc have stop: "add_fault t (Suc i + k') = Some e" by simp
    show ?thesis
      using Cons.prems(1) here Suc Cons.IH [OF Cons.prems(1) len rest stop] by simp
  qed
qed

text \<open>
  Claim C9. \<open>add_reactions\<close> calls \<open>add_reaction\<close> for the markers of the marker set in
  their order. When no call fails, every marker is attached, in order. When the call for
  the marker at position \<open>k\<close> is the first to fail, with an exception of the transport's
  classes, no further call is made, the markers before position \<open>k\<close> stay attached, and
  \<open>add_reactions\<close> returns without raising.
\<close>

theorem add_reactions_partial:
  assumes "message p = Some m" and "reactions p \<noteq> RNone"
  shows "((\<forall>j<length (markers (reactions p)). add_fault t j = None) \<longrightarrow>
            add_reactions t p w =
              (Inr (), w\<lparr>reaction_calls := reaction_calls w @ map (Pair m) (markers (reactions p)),
                         attached := attached w @ map (Pair m) (markers (reactions p))\<rparr>)) \<and>
         (k < length (markers (reactions p)) \<and> (\<forall>j<k. add_fault t j = None) \<and>
          add_fault t k = Some e \<and> is_http e \<longrightarrow>
            add_reactions t p w =
              (Inr (), w\<lparr>reaction_calls :=
                           reaction_calls w @ map (Pair m) (take (Suc k) (markers (reactions p))),
                         attached := attached w @ map (Pair m) (take k (markers (reactions p)))\<rparr>))"
proof -
  have ar: "add_reactions t p w = add_reactions_loop t 0 p (markers (reactions p)) w"
    using assms(2) by (cases "reactions p") (simp_all add: add_reactions_def)
  show ?thesis
    using add_reactions_loop_all [OF assms(1), of "markers (reactions p)" t 0 w]
      add_reactions_loop_stop [OF assms(1), of k "markers (reactions p)" t 0 e w]
    by (auto simp: ar)
qed

text \<open>
  Claim C9 at a link prompt whose third marker the transport refuses: three calls are made
  and the first two markers are attached.
\<close>

theorem add_reactions_partial_witness:
  "add_reactions third_refused (waiting_link 100) empty_world =
     (Inr (),
      empty_world
        \<lparr>reaction_calls :=
           [(100, lit ''<:battlenet:679469162724196387>''),
            (100, lit ''<:psn:679468542541693128>''),
            (100, lit ''<:xbl:679469487623503930>'')],
         attached :=
           [(100, lit ''<:battlenet:679469162724196387>''),
            (100, lit ''<:psn:679468542541693128>'')]\<rparr>)"
proof -
  have m: "message (waiting_link 100) = Some 100"
    and r: "reactions (waiting_link 100) \<noteq> RNone"
    by (simp_all add: example_defs)
  have ms: "markers (reactions (waiting_link 100)) =
      [lit ''<:battlenet:679469162724196387>'', lit ''<:psn:679468542541693128>'',
       lit ''<:xbl:679469487623503930>'', lit ''<:nsw:752653766377078817>'', [0x274C]]"
    by (simp add: waiting_link_def Link_init_def BasePaginator_init_def link_reactions_def)
  have f: "\<forall>j<2. add_fault third_refused j = None"
    and s: "add_fault third_refused 2 = Some Forbidden"
    by (simp_all add: third_refused_def run_with_def)
  from add_reactions_partial [OF m r, of third_refused empty_world 2 Forbidden] f s
  show ?thesis
    by (simp add: ms empty_world_def)
qed

section \<open>The wait and the cleanup\<close>

lemma wait_for_all_rejected:
  "\<forall>ev\<in>set evs. chk (fst ev) (snd ev) = Inr False \<Longrightarrow> wait_for chk evs = Inl TimeoutError"
  by (induction evs) auto












section \<open>The markers of the choice prompt\<close>

lemma py_str_nat_decode: "foldl (\<lambda>a d. 10 * a + (d - 48)) 0 (py_str_nat n) = n"
proof (induction n rule: py_str_nat.induct)
  case (1 n)
  show ?case
  proof (cases "n < 10")
    case True
    then show ?thesis by (simp add: py_str_nat.simps [of n])
  next
    case False
    with 1 show ?thesis by (simp add: py_str_nat.simps [of n])
  qed
qed

lemma py_str_nat_inj: "py_str_nat a = py_str_nat b \<Longrightarrow> a = b"
  by (metis py_str_nat_decode)

lemma keycap_inj: "keycap a = keycap b \<Longrightarrow> a = b"
  by (simp add: keycap_def py_str_nat_inj)

lemma distinct_keycaps: "distinct (keycaps i n)"
  unfolding keycaps_def by (simp add: distinct_map inj_on_def keycap_inj)

lemma keycaps_nth:
  assumes "1 \<le> i" and "i \<le> n"
  shows "keycaps 1 n ! (i - 1) = keycap i"
proof -
  have len: "i - 1 < length [1..<1 + n]" using assms by simp
  have "keycaps 1 n ! (i - 1) = keycap ([1..<1 + n] ! (i - 1))"
    unfolding keycaps_def using len by (rule nth_map)
  also have "[1..<1 + n] ! (i - 1) = 1 + (i - 1)"
    using assms by (intro nth_upt) simp
  finally show ?thesis using assms by simp
qed

lemma keycap_in_keycaps: "keycap i \<in> set (keycaps 1 n) \<longleftrightarrow> 1 \<le> i \<and> i \<le> n"
  by (auto simp del: upt_Suc simp: keycaps_def dest: keycap_inj)

lemma py_index_nth: "distinct xs \<Longrightarrow> i < length xs \<Longrightarrow> py_index xs (xs ! i) = Some i"
proof (induction xs arbitrary: i)
  case Nil
  then show ?case by simp
next
  case (Cons x xs)
  then show ?case by (cases i) auto
qed

lemma py_index_keycap:
  assumes "1 \<le> i" and "i \<le> n"
  shows "py_index (keycaps 1 n) (keycap i) = Some (i - 1)"
proof -
  have "i - 1 < length (keycaps 1 n)" using assms by (simp del: upt_Suc add: keycaps_def)
  from py_index_nth [OF distinct_keycaps this] keycaps_nth [OF assms]
  show ?thesis by simp
qed

lemma choose_session:
  "\<exists>q. Choose_prepare c (Choose_init (Some es) ti img ft) = (None, q) \<and>
        reactions q = RList (keycaps 1 (length es)) \<and> entries q = Some es \<and> kind q = Choose \<and>
        bot_ref q = Some (ctx_bot c) \<and> author q = Some (ctx_author c)"
proof -
  let ?p = "Choose_init (Some es) ti img ft"
  have r: "reactions ?p = RList []" and en: "entries ?p = Some es" and k: "kind ?p = Choose"
    by (simp_all add: Choose_init_def BasePaginator_init_def)
  from Choose_prepare_session [OF r en, of c] en k show ?thesis
    by (auto simp: session_of_def)
qed

lemma check_foreign:
  "author q = Some a \<Longrightarrow> bot_ref q = Some b \<Longrightarrow> message q = Some m \<Longrightarrow>
   reactions q = RList ks \<Longrightarrow> emoji r \<notin> set ks \<Longrightarrow> check q r u = Inr False"
  by (simp add: check_def)

lemma choose_resolves:
  assumes "reactions q = RList (keycaps 1 (length es))" and "entries q = Some es"
    and "kind q = Choose" and "1 \<le> i" and "i \<le> length es"
  shows "result (q\<lparr>message := Some m\<rparr>) (r\<lparr>emoji := keycap i\<rparr>) = Inr (PyStr (es ! (i - 1)))"
  using assms py_index_keycap [OF assms(4,5)]
  by (simp add: result_def Choose_result_def reaction_str_def)

lemma wait_for_all_foreign:
  assumes "author q = Some a" and "bot_ref q = Some b" and "message q = Some m"
    and "reactions q = RList ks" and "\<forall>ev\<in>set evs. emoji (fst ev) \<notin> set ks"
  shows "wait_for (check q) evs = Inl TimeoutError"
  using assms by (intro wait_for_all_rejected) (simp add: check_foreign)

text \<open>
  Claim C8. \<open>Choose.start\<close> on a constructed choice prompt with entries \<open>es\<close> raises
  nothing before the permission test and leaves the markers of the indices 1 to
  \<open>length es\<close>, in order: the marker at 1-based position \<open>i\<close> is the numeric marker of \<open>i\<close>.
  In the session, \<open>result\<close> maps the marker of \<open>i\<close> to the entry at position \<open>i\<close>. A marker
  outside the marker set, which the numeric marker of an index out of range is, is rejected
  by the filter, the wait goes on to the next signal, and a wait that receives only such
  markers ends with TimeoutError.
\<close>

theorem choose_markers_resolve:
  "fst (Choose_prepare c (Choose_init (Some es) ti img ft)) = None \<and>
   reactions (snd (Choose_prepare c (Choose_init (Some es) ti img ft)))
     = RList (keycaps 1 (length es)) \<and>
   (\<forall>i. 1 \<le> i \<and> i \<le> length es \<longrightarrow>
      keycaps 1 (length es) ! (i - 1) = keycap i \<and>
      result ((snd (Choose_prepare c (Choose_init (Some es) ti img ft)))\<lparr>message := Some m\<rparr>)
        (r\<lparr>emoji := keycap i\<rparr>) = Inr (PyStr (es ! (i - 1)))) \<and>
   (\<forall>x. x \<notin> set (keycaps 1 (length es)) \<longrightarrow>
      check ((snd (Choose_prepare c (Choose_init (Some es) ti img ft)))\<lparr>message := Some m\<rparr>)
        (r\<lparr>emoji := x\<rparr>) u = Inr False \<and>
      wait_for
        (check ((snd (Choose_prepare c (Choose_init (Some es) ti img ft)))\<lparr>message := Some m\<rparr>))
        ((r\<lparr>emoji := x\<rparr>, u) # evs)
      = wait_for
        (check ((snd (Choose_prepare c (Choose_init (Some es) ti img ft)))\<lparr>message := Some m\<rparr>))
        evs) \<and>
   (\<forall>i. i < 1 \<or> length es < i \<longrightarrow> keycap i \<notin> set (keycaps 1 (length es))) \<and>
   ((\<forall>ev\<in>set evs. emoji (fst ev) \<notin> set (keycaps 1 (length es))) \<longrightarrow>
      wait_for
        (check ((snd (Choose_prepare c (Choose_init (Some es) ti img ft)))\<lparr>message := Some m\<rparr>))
        evs = Inl TimeoutError)"
proof -
  obtain q where q: "Choose_prepare c (Choose_init (Some es) ti img ft) = (None, q)"
    and rs: "reactions q = RList (keycaps 1 (length es))" and en: "entries q = Some es"
    and k: "kind q = Choose"
    and b: "bot_ref q = Some (ctx_bot c)" and a: "author q = Some (ctx_author c)"
    using choose_session by blast
  let ?q = "q\<lparr>message := Some m\<rparr>"
  have a': "author ?q = Some (ctx_author c)" and b': "bot_ref ?q = Some (ctx_bot c)"
    and m': "message ?q = Some m" and rs': "reactions ?q = RList (keycaps 1 (length es))"
    using a b rs by simp_all
  note foreign = check_foreign [OF a' b' m' rs']
  note timeout = wait_for_all_foreign [OF a' b' m' rs']
  note res = choose_resolves [OF rs en k]
  show ?thesis
    unfolding q using rs res foreign timeout keycaps_nth keycap_in_keycaps
    by (simp add: not_le)
qed

text \<open>
  Claim C8 at the entries A, B, C: the marker of index 2 resolves to B, and the marker of
  index 4 and the cancel marker are rejected.
\<close>

theorem choose_markers_resolve_witness:
  "keycap 2 = [50, 0x20E3] \<and>
   result ((snd (Choose_prepare example_ctx
              (Choose_init (Some [lit ''A'', lit ''B'', lit ''C'']) None None None)))
           \<lparr>message := Some 100\<rparr>)
     \<lparr>emoji = [50, 0x20E3], reaction_message_id = 100\<rparr> = Inr (PyStr (lit ''B'')) \<and>
   check ((snd (Choose_prepare example_ctx
              (Choose_init (Some [lit ''A'', lit ''B'', lit ''C'']) None None None)))
           \<lparr>message := Some 100\<rparr>)
     \<lparr>emoji = [52, 0x20E3], reaction_message_id = 100\<rparr> example_user = Inr False \<and>
   check ((snd (Choose_prepare example_ctx
              (Choose_init (Some [lit ''A'', lit ''B'', lit ''C'']) None None None)))
           \<lparr>message := Some 100\<rparr>)
     (cancel_on 100) example_user = Inr False"
proof -
  note th = choose_markers_resolve [where c = example_ctx
      and es = "[lit ''A'', lit ''B'', lit ''C'']" and ti = None and img = None and ft = None
      and m = 100 and r = "cancel_on 100" and u = example_user and evs = "[]"]
  have k2: "keycap 2 = [50, 0x20E3]" and k4: "keycap 4 = [52, 0x20E3]"
    by (simp_all add: keycap_def py_str_nat.simps)
  have r2: "(cancel_on 100)\<lparr>emoji := keycap 2\<rparr> = \<lparr>emoji = [50, 0x20E3], reaction_message_id = 100\<rparr>"
    and r4: "(cancel_on 100)\<lparr>emoji := keycap 4\<rparr> = \<lparr>emoji = [52, 0x20E3], reaction_message_id = 100\<rparr>"
    and rc: "(cancel_on 100)\<lparr>emoji := [0x274C]\<rparr> = cancel_on 100"
    by (simp_all add: k2 k4 cancel_on_def)
  have ks: "keycaps 1 (length [lit ''A'', lit ''B'', lit ''C''])
      = [[49, 0x20E3], [50, 0x20E3], [51, 0x20E3]]"
    by (simp add: keycaps_def keycap_def py_str_nat.simps upt_rec)
  note res = th [THEN conjunct2, THEN conjunct2, THEN conjunct1, rule_format, of 2, THEN conjunct2]
  note fo = th [THEN conjunct2, THEN conjunct2, THEN conjunct2, THEN conjunct1, rule_format,
      THEN conjunct1]
  have a: "result ((snd (Choose_prepare example_ctx
              (Choose_init (Some [lit ''A'', lit ''B'', lit ''C'']) None None None)))
           \<lparr>message := Some 100\<rparr>) \<lparr>emoji = [50, 0x20E3], reaction_message_id = 100\<rparr>
       = Inr (PyStr (lit ''B''))"
    using res by (simp add: r2)
  have "keycap 4 \<notin> set (keycaps 1 (length [lit ''A'', lit ''B'', lit ''C'']))"
    and "[0x274C] \<notin> set (keycaps 1 (length [lit ''A'', lit ''B'', lit ''C'']))"
    unfolding ks by (simp_all add: k4)
  from fo [OF this(1)] fo [OF this(2)] a k2 show ?thesis
    by (simp add: r4 rc)
qed

end
